theory Spec2Isabelle
  imports Main "HOL-Library.Extended_Nat" "HOL-Library.Multiset"
begin

section \<open>The engine and the records of the lookup layer\<close>

text \<open>
  The module \<^verbatim>\<open>hfst_altlab/__init__.py\<close> wraps one transducer of the HFST engine.
  The engine is outside the repository: a loaded transducer is a record of what the
  wrapper asks of it. \<open>lookup_raw s c\<close> is \<^verbatim>\<open>lookup(s, time_cutoff=c, output="raw")\<close>,
  a list of pairs of a weight and a sequence of output symbols. Weights are Python
  floats, taken here as reals; \<^verbatim>\<open>float(weight)\<close> is then the identity.
\<close>

datatype ImplementationType =
  SFST_TYPE | TROPICAL_OPENFST_TYPE | LOG_OPENFST_TYPE | FOMA_TYPE | XFSM_TYPE
  | HFST_OL_TYPE | HFST_OLW_TYPE | HFST2_TYPE | UNSPECIFIED_TYPE | ERROR_TYPE

record hfst_transducer =
  is_infinitely_ambiguous :: bool
  get_type :: ImplementationType
  lookup_raw :: "string \<Rightarrow> int \<Rightarrow> (real \<times> string list) list"
  get_alphabet :: "string list"

text \<open>\<^verbatim>\<open>class TransducerFile\<close>: the attributes \<^verbatim>\<open>cutoff\<close> and \<^verbatim>\<open>transducer\<close>.\<close>

record TransducerFile =
  cutoff :: int
  transducer :: hfst_transducer

text \<open>\<^verbatim>\<open>class TransducerPair\<close>: the attributes \<^verbatim>\<open>analyser\<close> and \<^verbatim>\<open>generator\<close>.\<close>

record TransducerPair =
  analyser :: TransducerFile
  generator :: TransducerFile

text \<open>
  Modelled from the spec: the module \<^verbatim>\<open>hfst_altlab/types.py\<close> (the classes
  \<^verbatim>\<open>Wordform\<close>, \<^verbatim>\<open>Analysis\<close>, \<^verbatim>\<open>FullAnalysis\<close> and the functions \<^verbatim>\<open>as_fst_input\<close>,
  \<^verbatim>\<open>fst_output_format\<close>) is not among the sources. The classes are records of the
  constructor arguments that \<^verbatim>\<open>__init__.py\<close> passes: \<^verbatim>\<open>Wordform(weight, tokens)\<close> and
  \<^verbatim>\<open>FullAnalysis(weight, tokens, standardized)\<close>, the last one \<^verbatim>\<open>str | None\<close>.
  \<^verbatim>\<open>Analysis\<close> has the three attributes that \<^verbatim>\<open>TransducerPair.generate\<close> reads.
\<close>

record Wordform =
  wordform_weight :: real
  wordform_tokens :: "string list"

record Analysis =
  prefixes :: "string list"
  lemma_of :: string
  suffixes :: "string list"

record FullAnalysis =
  weight :: real
  tokens :: "string list"
  standardized :: "string option"

text \<open>
  Modelled from the spec: the attribute \<^verbatim>\<open>flag_diacritics\<close> of the missing class
  \<^verbatim>\<open>FullAnalysis\<close>, which \<^verbatim>\<open>lookup_symbols\<close> reads and filters. The spec has
  \<^verbatim>\<open>lookup_symbols\<close> return the filtered symbol list of each transduction, so the
  attribute is the symbol sequence the constructor was given.
\<close>

definition flag_diacritics :: "FullAnalysis \<Rightarrow> string list" where
  "flag_diacritics analysis = tokens analysis"

text \<open>The argument of a weighted lookup: \<^verbatim>\<open>str | Wordform\<close> or \<^verbatim>\<open>str | FullAnalysis\<close>.\<close>

datatype lookup_input = Str string | WordformInput Wordform | FullAnalysisInput FullAnalysis

text \<open>
  What the wrapper calls and the sources do not define is a parameter of the model:
  \<^verbatim>\<open>as_fst_input\<close> and \<^verbatim>\<open>fst_output_format\<close> of the missing module, the decoder
  behind the attribute \<^verbatim>\<open>FullAnalysis.analysis\<close>, \<^verbatim>\<open>__str__\<close> of the missing classes,
  and the engine's predicate \<^verbatim>\<open>hfst.is_diacritic\<close>.
\<close>

record externals =
  as_fst_input :: "lookup_input \<Rightarrow> string"
  fst_output_format :: "string list \<Rightarrow> string"
  analysis_of :: "string list \<Rightarrow> Analysis"
  object_str :: "lookup_input \<Rightarrow> string"
  is_diacritic :: "string \<Rightarrow> bool"

section \<open>TransducerFile: the lookups\<close>

text \<open>\<^verbatim>\<open>_weighted_lookup\<close>: the engine's raw lookup under the instance's cutoff.\<close>

definition weighted_lookup :: "TransducerFile \<Rightarrow> string \<Rightarrow> (real \<times> string list) list" where
  "weighted_lookup self input = lookup_raw (transducer self) input (cutoff self)"

text \<open>
  Python's truth value of \<^verbatim>\<open>entry: str | None\<close>, as \<^verbatim>\<open>if entry and ...\<close> tests it:
  \<^verbatim>\<open>None\<close> and the empty string are false.
\<close>

fun truthy :: "string option \<Rightarrow> bool" where
  "truthy None = False"
| "truthy (Some s) = (s \<noteq> [])"

text \<open>
  The loop of the inner function \<^verbatim>\<open>generate\<close> (the branch with a generator), with
  \<^verbatim>\<open>entry\<close> as accumulator:
  \<^verbatim>\<open>
  for _, output in generator._weighted_lookup(fst_output_format(tokens)):
      candidate = "".join(output)
      if entry and entry != candidate:
          return None
      else:
          entry = candidate
  return entry
  \<close>
\<close>

fun generate_loop :: "string option \<Rightarrow> (real \<times> string list) list \<Rightarrow> string option" where
  "generate_loop entry [] = entry"
| "generate_loop entry ((w, output) # rest) =
     (let candidate = concat output
      in if truthy entry \<and> entry \<noteq> Some candidate then None
         else generate_loop (Some candidate) rest)"

text \<open>
  The two definitions of \<^verbatim>\<open>generate\<close>, chosen by \<^verbatim>\<open>if generator:\<close>. A
  \<^verbatim>\<open>TransducerFile\<close> defines neither \<^verbatim>\<open>__bool__\<close> nor \<^verbatim>\<open>__len__\<close>, so the test is
  \<^verbatim>\<open>generator is not None\<close>.
\<close>

fun generate :: "externals \<Rightarrow> TransducerFile option \<Rightarrow> string list \<Rightarrow> string option" where
  "generate ext (Some gen) toks =
     generate_loop None (weighted_lookup gen (fst_output_format ext toks))"
| "generate ext None toks = None"

definition weighted_lookup_full_analysis ::
  "externals \<Rightarrow> TransducerFile \<Rightarrow> lookup_input \<Rightarrow> TransducerFile option \<Rightarrow> FullAnalysis list" where
  "weighted_lookup_full_analysis ext self wordform gen =
     map (\<lambda>(w, toks). \<lparr>weight = w, tokens = toks, standardized = generate ext gen toks\<rparr>)
       (weighted_lookup self (as_fst_input ext wordform))"

definition weighted_lookup_full_wordform ::
  "externals \<Rightarrow> TransducerFile \<Rightarrow> lookup_input \<Rightarrow> Wordform list" where
  "weighted_lookup_full_wordform ext self analysis =
     map (\<lambda>(w, toks). \<lparr>wordform_weight = w, wordform_tokens = toks\<rparr>)
       (weighted_lookup self (as_fst_input ext analysis))"

text \<open>
  The inner comprehension of \<^verbatim>\<open>lookup_symbols\<close>,
  \<^verbatim>\<open>[x for x in ... if x and not hfst.is_diacritic(x)]\<close>: the symbol filter.
\<close>

definition symbol_filter :: "externals \<Rightarrow> string list \<Rightarrow> string list" where
  "symbol_filter ext xs = filter (\<lambda>x. x \<noteq> [] \<and> \<not> is_diacritic ext x) xs"

definition lookup_symbols :: "externals \<Rightarrow> TransducerFile \<Rightarrow> string \<Rightarrow> string list list" where
  "lookup_symbols ext self input =
     map (\<lambda>analysis. symbol_filter ext (flag_diacritics analysis))
       (weighted_lookup_full_analysis ext self (Str input) None)"

definition lookup :: "externals \<Rightarrow> TransducerFile \<Rightarrow> string \<Rightarrow> string list" where
  "lookup ext self input = map concat (lookup_symbols ext self input)"

definition lookup_lemma_with_affixes ::
  "externals \<Rightarrow> TransducerFile \<Rightarrow> string \<Rightarrow> Analysis list" where
  "lookup_lemma_with_affixes ext self surface_form =
     map (\<lambda>analysis. analysis_of ext (tokens analysis))
       (weighted_lookup_full_analysis ext self (Str surface_form) None)"

text \<open>
  \<^verbatim>\<open>bulk_lookup\<close>: the dict comprehension stores the words in order, a later
  occurrence of a word replacing the entry of an earlier one.
\<close>

fun bulk_lookup_loop ::
  "externals \<Rightarrow> TransducerFile \<Rightarrow> (string \<rightharpoonup> string set) \<Rightarrow> string list \<Rightarrow> (string \<rightharpoonup> string set)" where
  "bulk_lookup_loop ext self m [] = m"
| "bulk_lookup_loop ext self m (word # ws) =
     bulk_lookup_loop ext self (m(word \<mapsto> set (lookup ext self word))) ws"

definition bulk_lookup :: "externals \<Rightarrow> TransducerFile \<Rightarrow> string list \<Rightarrow> (string \<rightharpoonup> string set)" where
  "bulk_lookup ext self ws = bulk_lookup_loop ext self Map.empty ws"

definition symbol_count :: "TransducerFile \<Rightarrow> nat" where
  "symbol_count self = length (get_alphabet (transducer self))"

section \<open>TransducerFile: the constructor\<close>

text \<open>
  The constructor reads the file system and opens a stream, so it runs on a state: the
  files (a path that does not exist maps to \<open>None\<close>; an existing one is either what
  \<^verbatim>\<open>hfst.HfstInputStream\<close> rejects with \<^verbatim>\<open>NotTransducerStreamException\<close> or a
  container of transducers), the input streams opened so far, each open or closed, and
  the lines printed. The engine's \<^verbatim>\<open>lookup_optimize()\<close> changes a transducer in place;
  the sources say nothing of what it leaves, so it is a component of the state, any
  function on transducers.
\<close>

datatype file_content = NotTransducerStream | TransducerStream "hfst_transducer list"

datatype stream_state = Open | Closed

record world =
  files :: "string \<rightharpoonup> file_content"
  streams :: "stream_state list"
  stdout :: "string list"
  lookup_optimize :: "hfst_transducer \<Rightarrow> hfst_transducer"

text \<open>
  The exceptions the constructor raises, each with its message; \<open>ValueError\<close> carries
  the note added by \<^verbatim>\<open>add_note\<close>.
\<close>

datatype error =
  FileNotFoundError string
  | NotTransducerStreamException string
  | ValueError string
  | RuntimeWarning string

text \<open>
  The message of \<^verbatim>\<open>FileNotFoundError\<close>: the words \<^verbatim>\<open>Transducer not found: \<close> and
  \<^verbatim>\<open>str(filename)\<close> between the quotation marks U+2018 and U+2019, three bytes each
  in UTF-8.
\<close>

definition not_found_message :: "string \<Rightarrow> string" where
  "not_found_message filename =
     ''Transducer not found: '' @ [CHR 0xE2, CHR 0x80, CHR 0x98] @ filename
       @ [CHR 0xE2, CHR 0x80, CHR 0x99]"

text \<open>\<^verbatim>\<open>stream.close()\<close> on the stream with handle \<open>h\<close>.\<close>

definition close :: "nat \<Rightarrow> world \<Rightarrow> world" where
  "close h w = w\<lparr>streams := (streams w)[h := Closed]\<rparr>"

text \<open>
  \<^verbatim>\<open>TransducerFile.__init__(filename, search_cutoff)\<close>. The new stream's handle is
  its position in \<open>streams\<close>. \<^verbatim>\<open>transducers[0]\<close> is read only where the length is 1.
\<close>

definition TransducerFile_init ::
  "world \<Rightarrow> string \<Rightarrow> int \<Rightarrow> (error + TransducerFile) \<times> world" where
  "TransducerFile_init w filename search_cutoff =
     (case files w filename of
        None \<Rightarrow> (Inl (FileNotFoundError (not_found_message filename)), w)
      | Some NotTransducerStream \<Rightarrow>
          (Inl (NotTransducerStreamException ''wrong or corrupt file?''), w)
      | Some (TransducerStream transducers) \<Rightarrow>
          (let stream = length (streams w);
               w1 = w\<lparr>streams := streams w @ [Open]\<rparr>
           in if \<not> length transducers = 1
              then (Inl (ValueError ''We expected a single transducer to arise in the file.''),
                    close stream w1)
              else
                (let w2 = close stream w1;
                     t = transducers ! 0
                 in if is_infinitely_ambiguous t
                    then (Inl (RuntimeWarning ''The transducer is infinitely ambiguous.''), w2)
                    else if \<not> (get_type t \<in> {HFST_OL_TYPE, HFST_OLW_TYPE})
                    then (Inr \<lparr>cutoff = search_cutoff, transducer = lookup_optimize w t\<rparr>,
                          w2\<lparr>stdout := stdout w2
                                @ [''Transducer not optimized.  Optimizing...'', ''Done.'']\<rparr>)
                    else (Inr \<lparr>cutoff = search_cutoff, transducer = t\<rparr>, w2))))"

section \<open>TransducerPair\<close>

text \<open>
  \<^verbatim>\<open>TransducerPair.__init__(analyser, generator, search_cutoff)\<close>: the two files are
  loaded one after the other; an exception of the first load ends the construction.
\<close>

definition TransducerPair_init ::
  "world \<Rightarrow> string \<Rightarrow> string \<Rightarrow> int \<Rightarrow> (error + TransducerPair) \<times> world" where
  "TransducerPair_init w analyser_path generator_path search_cutoff =
     (case TransducerFile_init w analyser_path search_cutoff of
        (Inl e, w1) \<Rightarrow> (Inl e, w1)
      | (Inr a, w1) \<Rightarrow>
          (case TransducerFile_init w1 generator_path search_cutoff of
             (Inl e, w2) \<Rightarrow> (Inl e, w2)
           | (Inr g, w2) \<Rightarrow> (Inr \<lparr>analyser = a, generator = g\<rparr>, w2)))"

text \<open>\<^verbatim>\<open>str(input)\<close>: the identity on a string, \<^verbatim>\<open>__str__\<close> of the class otherwise.\<close>

fun py_str :: "externals \<Rightarrow> lookup_input \<Rightarrow> string" where
  "py_str ext (Str s) = s"
| "py_str ext x = object_str ext x"

text \<open>
  A distance is a Python float. \<open>Num x\<close> is a float that is a number, \<open>x\<close> in a
  linear order whose greatest element \<open>top\<close> is \<^verbatim>\<open>float("+Infinity")\<close>; \<open>NaN\<close> is
  the float that compares false with every float.
\<close>

datatype 'd pyfloat = Num 'd | NaN

text \<open>The number of a float that is one; where it is read no key is \<open>NaN\<close>.\<close>

fun num_of :: "'d::order_top pyfloat \<Rightarrow> 'd" where
  "num_of (Num x) = x"
| "num_of NaN = top"

text \<open>
  The argument \<^verbatim>\<open>distance\<close>, when it is not \<^verbatim>\<open>None\<close>: what a call returns, and the
  truth value that \<^verbatim>\<open>if distance:\<close> tests. Every function is true; a callable object
  is false only through a \<^verbatim>\<open>__bool__\<close> or \<^verbatim>\<open>__len__\<close> of its own.
\<close>

record 'd callable =
  call :: "string \<Rightarrow> string \<Rightarrow> 'd pyfloat"
  truth :: bool

text \<open>
  The inner function \<^verbatim>\<open>key\<close> of \<^verbatim>\<open>analyse\<close>:
  \<^verbatim>\<open>
  if other.standardized is None:
      return float("+Infinity")
  return distance(source, other.standardized)
  \<close>
\<close>

definition key :: "'d::{linorder,order_top} callable \<Rightarrow> string \<Rightarrow> FullAnalysis \<Rightarrow> 'd pyfloat" where
  "key distance source other =
     (case standardized other of None \<Rightarrow> Num top | Some s \<Rightarrow> call distance source s)"

text \<open>
  \<^verbatim>\<open>list.sort(key=k)\<close> of the interpreter: where the keys are numbers it is the stable
  sort ascending in the key, which \<open>sort_key\<close> computes. Where a key is \<open>NaN\<close> the
  comparisons are not those of an order and the language does not say what the list
  becomes: that is the parameter \<open>unordered\<close>, any function.
\<close>

definition list_sort ::
  "(('a \<Rightarrow> 'd pyfloat) \<Rightarrow> 'a list \<Rightarrow> 'a list) \<Rightarrow> ('a \<Rightarrow> 'd::{linorder,order_top} pyfloat)
     \<Rightarrow> 'a list \<Rightarrow> 'a list" where
  "list_sort unordered k xs =
     (if \<exists>x \<in> set xs. k x = NaN then unordered k xs
      else sort_key (\<lambda>x. num_of (k x)) xs)"

text \<open>
  \<^verbatim>\<open>TransducerPair.analyse(input, distance)\<close>:
  \<^verbatim>\<open>
  candidate = self.analyser.weighted_lookup_full_analysis(input, self.generator)
  if distance:
      source = str(input)
      candidate.sort(key=key)
  return candidate
  \<close>
\<close>

definition analyse ::
  "externals \<Rightarrow> ((FullAnalysis \<Rightarrow> 'd pyfloat) \<Rightarrow> FullAnalysis list \<Rightarrow> FullAnalysis list)
     \<Rightarrow> TransducerPair \<Rightarrow> lookup_input \<Rightarrow> 'd::{linorder,order_top} callable option
     \<Rightarrow> FullAnalysis list" where
  "analyse ext unordered self input distance =
     (let candidate = weighted_lookup_full_analysis ext (analyser self) input (Some (generator self))
      in case distance of
           None \<Rightarrow> candidate
         | Some d \<Rightarrow>
             if truth d then list_sort unordered (key d (py_str ext input)) candidate
             else candidate)"

text \<open>\<^verbatim>\<open>TransducerPair.generate(analysis)\<close>, with \<^verbatim>\<open>isinstance(analysis, Analysis)\<close> as a tag.\<close>

datatype generate_input = AnalysisArg Analysis | OtherArg lookup_input

definition TransducerPair_generate ::
  "externals \<Rightarrow> TransducerPair \<Rightarrow> generate_input \<Rightarrow> Wordform list" where
  "TransducerPair_generate ext self analysis =
     (let input = (case analysis of
                     AnalysisArg a \<Rightarrow> Str (concat (prefixes a) @ lemma_of a @ concat (suffixes a))
                   | OtherArg x \<Rightarrow> x)
      in weighted_lookup_full_wordform ext (generator self) input)"

section \<open>Concrete transducers\<close>

text \<open>
  A small analyser and generator on which the functions are run. The missing codec is
  taken as the identity on strings and the concatenation of symbols; the only flag
  diacritic is \<^verbatim>\<open>@P.X.Y@\<close>. The generator answers \<^verbatim>\<open>A\<close> with nothing, \<^verbatim>\<open>B\<close> with two
  paths of the same surface string, \<^verbatim>\<open>C\<close> with two different strings, \<^verbatim>\<open>D\<close> with one
  string, and \<^verbatim>\<open>E\<close> with the empty string followed by \<^verbatim>\<open>a\<close>.
\<close>

definition ex_externals :: externals where
  "ex_externals =
     \<lparr>as_fst_input = (\<lambda>i. case i of Str s \<Rightarrow> s | _ \<Rightarrow> []),
      fst_output_format = concat,
      analysis_of = (\<lambda>t. \<lparr>prefixes = [], lemma_of = concat t, suffixes = []\<rparr>),
      object_str = (\<lambda>i. []),
      is_diacritic = (\<lambda>x. x = ''@P.X.Y@'')\<rparr>"

definition ex_engine :: "(string \<Rightarrow> (real \<times> string list) list) \<Rightarrow> hfst_transducer" where
  "ex_engine f =
     \<lparr>is_infinitely_ambiguous = False, get_type = HFST_OLW_TYPE,
      lookup_raw = (\<lambda>s c. f s), get_alphabet = []\<rparr>"

definition ex_analyser_engine :: hfst_transducer where
  "ex_analyser_engine =
     ex_engine (\<lambda>s. if s = ''go''
                     then [(0, [''go'', ''@P.X.Y@'', [], ''+V'']), (0, [''go'', ''+V'']),
                           (1, [''went''])]
                     else if s = ''ab''
                     then [(0, [''A'']), (1, [''B'']), (2, [''C'']), (3, [''D''])]
                     else if s = ''e'' then [(0, [''E''])]
                     else [])"

definition ex_generator_engine :: hfst_transducer where
  "ex_generator_engine =
     (ex_engine (\<lambda>s. if s = ''A'' then []
                      else if s = ''B''
                      then [(0, [''a'', ''b'', ''c'', ''d'']), (1, [''ab'', ''cd''])]
                      else if s = ''C'' then [(0, [''c'']), (0, [''d''])]
                      else if s = ''D'' then [(0, [''a'', ''b''])]
                      else if s = ''E'' then [(0, [[]]), (0, [''a''])]
                      else []))\<lparr>get_type := TROPICAL_OPENFST_TYPE\<rparr>"

definition ex_ambiguous_engine :: hfst_transducer where
  "ex_ambiguous_engine =
     ex_analyser_engine\<lparr>is_infinitely_ambiguous := True, get_type := TROPICAL_OPENFST_TYPE\<rparr>"

definition ex_analyser :: TransducerFile where
  "ex_analyser = \<lparr>cutoff = 60, transducer = ex_analyser_engine\<rparr>"

definition ex_generator :: TransducerFile where
  "ex_generator = \<lparr>cutoff = 60, transducer = ex_generator_engine\<rparr>"

definition ex_pair :: TransducerPair where
  "ex_pair = \<lparr>analyser = ex_analyser, generator = ex_generator\<rparr>"

text \<open>
  Two distance functions with values in the naturals extended by infinity: the
  difference of the lengths, and the constant \<^verbatim>\<open>float("inf")\<close>. Neither returns
  \<open>NaN\<close>, so what the sort does with such a key is not read; it is taken as the
  reversal, which no result below is.
\<close>

definition ex_length_distance :: "enat callable" where
  "ex_length_distance =
     \<lparr>call = (\<lambda>x y. Num (enat (nat \<bar>int (length x) - int (length y)\<bar>))), truth = True\<rparr>"

definition ex_infinite_distance :: "enat callable" where
  "ex_infinite_distance = \<lparr>call = (\<lambda>x y. Num \<infinity>), truth = True\<rparr>"

definition ex_unordered ::
  "(FullAnalysis \<Rightarrow> enat pyfloat) \<Rightarrow> FullAnalysis list \<Rightarrow> FullAnalysis list" where
  "ex_unordered k xs = rev xs"

text \<open>
  A file system with a file for each outcome of the constructor, and an engine whose
  \<^verbatim>\<open>lookup_optimize()\<close> sets the type of the transducer.
\<close>

definition ex_world :: world where
  "ex_world =
     \<lparr>files = [''analyser.hfstol'' \<mapsto> TransducerStream [ex_analyser_engine],
               ''generator.hfst'' \<mapsto> TransducerStream [ex_generator_engine],
               ''ambiguous.hfst'' \<mapsto> TransducerStream [ex_ambiguous_engine],
               ''two.hfst'' \<mapsto> TransducerStream [ex_analyser_engine, ex_generator_engine],
               ''notes.txt'' \<mapsto> NotTransducerStream],
      streams = [], stdout = [],
      lookup_optimize = (\<lambda>t. t\<lparr>get_type := HFST_OLW_TYPE\<rparr>)\<rparr>"

lemmas ex_defs = ex_externals_def ex_engine_def ex_analyser_engine_def ex_generator_engine_def
  ex_ambiguous_engine_def ex_analyser_def ex_generator_def ex_pair_def ex_world_def

section \<open>The symbol filter and the plain lookups\<close>

text \<open>
  C8. The symbol filter is idempotent: filtering a sequence of symbols twice gives what
  filtering it once gives.
\<close>

theorem symbol_filter_idempotent:
  "symbol_filter ext (symbol_filter ext xs) = symbol_filter ext xs"
  by (simp add: symbol_filter_def)

lemma symbol_filter_set:
  "set (symbol_filter ext xs) = {x \<in> set xs. x \<noteq> [] \<and> \<not> is_diacritic ext x}"
  by (simp add: symbol_filter_def)

lemma lookup_example:
  "lookup ex_externals ex_analyser ''go'' = [''go+V'', ''go+V'', ''went'']"
  by (simp add: lookup_def lookup_symbols_def weighted_lookup_full_analysis_def
      weighted_lookup_def flag_diacritics_def symbol_filter_def ex_defs)

text \<open>
  C5. \<open>lookup\<close> returns one string for each weighted transduction of the engine, in
  the engine's order: the concatenation, in their order, of the transduction's symbols
  that are neither empty nor a flag diacritic. The result is as long as the engine's,
  so equal strings are all kept. \<open>lookup_symbols\<close> returns these symbols before the
  concatenation, and none of them is empty or a flag diacritic.
\<close>

theorem lookup_flat_strings:
  "lookup ext self input =
     map (\<lambda>(w, output). concat (filter (\<lambda>x. x \<noteq> [] \<and> \<not> is_diacritic ext x) output))
       (lookup_raw (transducer self) (as_fst_input ext (Str input)) (cutoff self))
   \<and> length (lookup ext self input) =
       length (lookup_raw (transducer self) (as_fst_input ext (Str input)) (cutoff self))
   \<and> lookup_symbols ext self input =
       map (\<lambda>(w, output). filter (\<lambda>x. x \<noteq> [] \<and> \<not> is_diacritic ext x) output)
         (lookup_raw (transducer self) (as_fst_input ext (Str input)) (cutoff self))
   \<and> (\<forall>symbols \<in> set (lookup_symbols ext self input).
         \<forall>x \<in> set symbols. x \<noteq> [] \<and> \<not> is_diacritic ext x)"
  by (auto simp: lookup_def lookup_symbols_def weighted_lookup_full_analysis_def
      weighted_lookup_def flag_diacritics_def symbol_filter_def split_def comp_def)

theorem lookup_flat_strings_witness:
  "lookup_raw (transducer ex_analyser) (as_fst_input ex_externals (Str ''go'')) (cutoff ex_analyser) =
     [(0, [''go'', ''@P.X.Y@'', [], ''+V'']), (0, [''go'', ''+V'']), (1, [''went''])]
   \<and> lookup ex_externals ex_analyser ''go'' = [''go+V'', ''go+V'', ''went'']
   \<and> lookup_symbols ex_externals ex_analyser ''go'' = [[''go'', ''+V''], [''go'', ''+V''], [''went'']]
   \<and> ''+V'' \<noteq> [] \<and> \<not> is_diacritic ex_externals ''+V''"
proof -
  let ?raw = "lookup_raw (transducer ex_analyser) (as_fst_input ex_externals (Str ''go''))
    (cutoff ex_analyser)"
  have raw: "?raw = [(0, [''go'', ''@P.X.Y@'', [], ''+V'']), (0, [''go'', ''+V'']), (1, [''went''])]"
    by (simp add: ex_defs)
  have d: "is_diacritic ex_externals = (\<lambda>x. x = ''@P.X.Y@'')"
    by (simp add: ex_externals_def)
  note th = lookup_flat_strings [of ex_externals ex_analyser "''go''"]
  have l: "lookup ex_externals ex_analyser ''go'' = [''go+V'', ''go+V'', ''went'']"
    using th by (simp add: raw d)
  have s: "lookup_symbols ex_externals ex_analyser ''go'' =
      [[''go'', ''+V''], [''go'', ''+V''], [''went'']]"
    using th by (simp add: raw d)
  have m: "[''go'', ''+V''] \<in> set (lookup_symbols ex_externals ex_analyser ''go'')
    \<and> ''+V'' \<in> set [''go'', ''+V'']"
    by (simp add: s)
  have "''+V'' \<noteq> [] \<and> \<not> is_diacritic ex_externals ''+V''"
    using th m by blast
  then show ?thesis using raw l s by blast
qed

lemma bulk_lookup_loop_apply:
  "bulk_lookup_loop ext self m ws k =
     (if k \<in> set ws then Some (set (lookup ext self k)) else m k)"
  by (induction ws arbitrary: m) auto

text \<open>
  C6. \<open>bulk_lookup\<close> returns a mapping whose keys are the distinct words of the input
  list, and each word maps to the set of its lookup results.
\<close>

theorem bulk_lookup_sets:
  "dom (bulk_lookup ext self ws) = set ws
   \<and> (\<forall>word \<in> set ws. bulk_lookup ext self ws word = Some (set (lookup ext self word)))"
  by (auto simp: bulk_lookup_def bulk_lookup_loop_apply dom_def)

theorem bulk_lookup_sets_witness:
  "''go'' \<in> set [''go'', ''go'']
   \<and> dom (bulk_lookup ex_externals ex_analyser [''go'', ''go'']) = {''go''}
   \<and> bulk_lookup ex_externals ex_analyser [''go'', ''go''] ''go'' = Some {''go+V'', ''went''}"
proof -
  have h: "''go'' \<in> set [''go'', ''go'']" by simp
  have "set (lookup ex_externals ex_analyser ''go'') = {''go+V'', ''went''}"
    by (simp add: lookup_example)
  then show ?thesis
    using h bulk_lookup_sets [of ex_externals ex_analyser "[''go'', ''go'']"] by simp
qed

section \<open>Standardization\<close>

text \<open>
  C9. Without a generator every full analysis of the result has no standardized form;
  \<open>lookup_symbols\<close>, \<open>lookup\<close> and \<open>lookup_lemma_with_affixes\<close> are computed from
  that result.
\<close>

theorem no_generator_no_standardized:
  "(\<forall>fa \<in> set (weighted_lookup_full_analysis ext self wordform None). standardized fa = None)
   \<and> lookup_symbols ext self input =
       map (\<lambda>fa. symbol_filter ext (flag_diacritics fa))
         (weighted_lookup_full_analysis ext self (Str input) None)
   \<and> lookup ext self input =
       map (\<lambda>fa. concat (symbol_filter ext (flag_diacritics fa)))
         (weighted_lookup_full_analysis ext self (Str input) None)
   \<and> lookup_lemma_with_affixes ext self input =
       map (\<lambda>fa. analysis_of ext (tokens fa))
         (weighted_lookup_full_analysis ext self (Str input) None)"
  by (auto simp: weighted_lookup_full_analysis_def lookup_symbols_def lookup_def
      lookup_lemma_with_affixes_def)

theorem no_generator_no_standardized_witness:
  "\<lparr>weight = 1, tokens = [''went''], standardized = None\<rparr>
     \<in> set (weighted_lookup_full_analysis ex_externals ex_analyser (Str ''go'') None)
   \<and> standardized \<lparr>weight = 1, tokens = [''went''], standardized = None\<rparr> = None
   \<and> length (weighted_lookup_full_analysis ex_externals ex_analyser (Str ''go'') None) = 3"
proof -
  have h: "\<lparr>weight = 1, tokens = [''went''], standardized = None\<rparr>
     \<in> set (weighted_lookup_full_analysis ex_externals ex_analyser (Str ''go'') None)"
    by (simp add: weighted_lookup_full_analysis_def weighted_lookup_def ex_defs)
  have l: "length (weighted_lookup_full_analysis ex_externals ex_analyser (Str ''go'') None) = 3"
    by (simp add: weighted_lookup_full_analysis_def weighted_lookup_def ex_defs)
  from no_generator_no_standardized [of ex_externals ex_analyser "Str ''go''" "''go''"] h
  have "standardized \<lparr>weight = 1, tokens = [''went''], standardized = None\<rparr> = None"
    by blast
  with h l show ?thesis by blast
qed

text \<open>
  What the loop of \<open>generate\<close> computes: no result gives \<open>None\<close>; results that all
  concatenate to one string give that string; two results with different strings give
  \<open>None\<close> when no result concatenates to the empty string.
\<close>

lemma generate_loop_same:
  "\<forall>r \<in> set rs. concat (snd r) = s \<Longrightarrow> entry = None \<or> entry = Some s \<Longrightarrow>
   generate_loop entry rs = (if rs = [] then entry else Some s)"
  by (induction rs arbitrary: entry) (auto simp: Let_def)

lemma generate_loop_differs:
  "e \<noteq> [] \<Longrightarrow> \<forall>r \<in> set rs. concat (snd r) \<noteq> [] \<Longrightarrow> \<exists>r \<in> set rs. concat (snd r) \<noteq> e \<Longrightarrow>
   generate_loop (Some e) rs = None"
proof (induction rs arbitrary: e)
  case Nil
  then show ?case by simp
next
  case (Cons r rs)
  obtain w out where r: "r = (w, out)" by (cases r)
  show ?case
  proof (cases "concat out = e")
    case True
    then have "\<exists>x \<in> set rs. concat (snd x) \<noteq> e" using Cons.prems(3) r by auto
    moreover have "\<forall>x \<in> set rs. concat (snd x) \<noteq> []" using Cons.prems(2) by simp
    ultimately have "generate_loop (Some e) rs = None" using Cons.IH Cons.prems(1) by blast
    then show ?thesis using r True by (simp del: concat_eq_Nil_conv)
  next
    case False
    then show ?thesis using r Cons.prems(1) by (simp del: concat_eq_Nil_conv)
  qed
qed

lemma generate_zero_results:
  "weighted_lookup gen (fst_output_format ext toks) = [] \<Longrightarrow> generate ext (Some gen) toks = None"
  by simp

lemma generate_unanimous:
  assumes "weighted_lookup gen (fst_output_format ext toks) \<noteq> []"
    and "\<forall>r \<in> set (weighted_lookup gen (fst_output_format ext toks)). concat (snd r) = s"
  shows "generate ext (Some gen) toks = Some s"
  using generate_loop_same [OF assms(2), of None] assms(1) by simp

lemma generate_distinct_nonempty:
  assumes ne: "\<forall>r \<in> set (weighted_lookup gen (fst_output_format ext toks)). concat (snd r) \<noteq> []"
    and r1: "r1 \<in> set (weighted_lookup gen (fst_output_format ext toks))"
    and r2: "r2 \<in> set (weighted_lookup gen (fst_output_format ext toks))"
    and diff: "concat (snd r1) \<noteq> concat (snd r2)"
  shows "generate ext (Some gen) toks = None"
proof (cases "weighted_lookup gen (fst_output_format ext toks)")
  case Nil
  with r1 show ?thesis by simp
next
  case (Cons r rest)
  obtain w out where r: "r = (w, out)" by (cases r)
  have out: "concat out \<noteq> []" using ne Cons r by simp
  have "\<exists>x \<in> set rest. concat (snd x) \<noteq> concat out"
  proof (rule ccontr)
    assume "\<not> (\<exists>x \<in> set rest. concat (snd x) \<noteq> concat out)"
    then have "\<forall>x \<in> set (r # rest). concat (snd x) = concat out" using r by simp
    with r1 r2 Cons diff show False by simp
  qed
  moreover have "\<forall>x \<in> set rest. concat (snd x) \<noteq> []" using ne Cons by simp
  ultimately have "generate_loop (Some (concat out)) rest = None"
    using generate_loop_differs [OF out] by blast
  then show ?thesis using Cons r by simp
qed

text \<open>
  C1. With a generator, the standardized form is the common surface string of the
  generator's results, and is absent when there is no result or when two results
  differ. The code departs from this where the generator's first result concatenates
  to the empty string: \<^verbatim>\<open>if entry and entry != candidate\<close> takes the empty \<^verbatim>\<open>entry\<close>
  for no entry at all, and the next string replaces it. The generator answers \<^verbatim>\<open>E\<close>
  with the two surface strings \<^verbatim>\<open>""\<close> and \<^verbatim>\<open>"a"\<close>, and the analysis is standardized
  to \<^verbatim>\<open>"a"\<close>.
\<close>

theorem standardized_after_empty_string:
  "weighted_lookup ex_generator (fst_output_format ex_externals [''E'']) =
     [(0, [[]]), (0, [''a''])]
   \<and> concat [[]] \<noteq> concat [''a'']
   \<and> weighted_lookup_full_analysis ex_externals ex_analyser (Str ''e'') (Some ex_generator) =
       [\<lparr>weight = 0, tokens = [''E''], standardized = Some ''a''\<rparr>]"
  by (simp add: weighted_lookup_full_analysis_def weighted_lookup_def ex_defs)

section \<open>Ranking by distance\<close>

text \<open>
  Without a distance argument, or with one that is false in \<^verbatim>\<open>if distance:\<close>, the list
  is returned in the analyser's order.
\<close>

lemma analyse_unsorted:
  "distance = None \<or> (\<exists>d. distance = Some d \<and> \<not> truth d) \<Longrightarrow>
   analyse ext unordered self input distance =
     weighted_lookup_full_analysis ext (analyser self) input (Some (generator self))"
  by (auto simp: analyse_def)

lemma list_sort_numbers:
  "\<forall>x \<in> set xs. k x \<noteq> NaN \<Longrightarrow> list_sort unordered k xs = sort_key (\<lambda>x. num_of (k x)) xs"
  by (auto simp: list_sort_def)

lemma num_of_eq: "a \<noteq> NaN \<Longrightarrow> (a = Num v) = (num_of a = v)"
  by (cases a) auto

lemma key_number:
  "\<forall>s. standardized c = Some s \<longrightarrow> call d source s \<noteq> NaN \<Longrightarrow> key d source c \<noteq> NaN"
  by (cases "standardized c") (auto simp: key_def)

lemma top_after_below_top:
  fixes f :: "'a \<Rightarrow> 'd::{linorder,order_top}"
  assumes "sorted (map f xs)" "i < length xs" "j < length xs" "f (xs ! i) = top" "f (xs ! j) < top"
  shows "j < i"
proof (rule ccontr)
  assume "\<not> j < i"
  then have "i \<le> j" by simp
  then have "map f xs ! i \<le> map f xs ! j"
    using assms(1) assms(3) by (simp add: sorted_iff_nth_mono del: nth_map)
  then show False using assms by simp
qed

lemma sort_key_stable_numbers:
  fixes k :: "'a \<Rightarrow> 'd::{linorder,order_top} pyfloat"
  assumes "\<forall>x \<in> set xs. k x \<noteq> NaN"
  shows "filter (\<lambda>x. k x = Num v) (sort_key (\<lambda>x. num_of (k x)) xs) = filter (\<lambda>x. k x = Num v) xs"
proof -
  have "filter (\<lambda>x. k x = Num v) (sort_key (\<lambda>x. num_of (k x)) xs) =
      filter (\<lambda>x. num_of (k x) = v) (sort_key (\<lambda>x. num_of (k x)) xs)"
    using assms by (intro filter_cong) (auto simp: num_of_eq)
  also have "\<dots> = filter (\<lambda>x. num_of (k x) = v) xs"
    by (rule sort_key_stable)
  also have "\<dots> = filter (\<lambda>x. k x = Num v) xs"
    using assms by (intro filter_cong) (auto simp: num_of_eq)
  finally show ?thesis .
qed

text \<open>
  C3, as the code has it. Let the distance argument be true in \<^verbatim>\<open>if distance:\<close> and
  return no \<open>NaN\<close> for the standardized forms of the candidates. Then \<open>analyse\<close>
  returns the analyser's result list (standardized against the generator) sorted by
  the key: the list is ascending in the key, has the same elements, and keeps the
  prior order among the candidates of each key. The key of a candidate without a
  standardized form is \<open>top\<close>, so such a candidate stands after every candidate whose
  distance is below \<open>top\<close>; a candidate whose distance is itself \<open>top\<close> ties with it.
\<close>

theorem analyse_sorted_by_distance:
  fixes d :: "'d::{linorder,order_top} callable"
  assumes t: "truth d"
    and n: "\<forall>c \<in> set (weighted_lookup_full_analysis ext (analyser self) input (Some (generator self))).
              \<forall>s. standardized c = Some s \<longrightarrow> call d (py_str ext input) s \<noteq> NaN"
  shows "analyse ext unordered self input (Some d) =
       sort_key (\<lambda>c. num_of (key d (py_str ext input) c))
         (weighted_lookup_full_analysis ext (analyser self) input (Some (generator self)))
   \<and> sorted (map (\<lambda>c. num_of (key d (py_str ext input) c))
               (analyse ext unordered self input (Some d)))
   \<and> mset (analyse ext unordered self input (Some d)) =
       mset (weighted_lookup_full_analysis ext (analyser self) input (Some (generator self)))
   \<and> (\<forall>v. filter (\<lambda>c. key d (py_str ext input) c = Num v)
             (analyse ext unordered self input (Some d)) =
           filter (\<lambda>c. key d (py_str ext input) c = Num v)
             (weighted_lookup_full_analysis ext (analyser self) input (Some (generator self))))
   \<and> (\<forall>c. key d (py_str ext input) c =
           (case standardized c of None \<Rightarrow> Num top | Some s \<Rightarrow> call d (py_str ext input) s))
   \<and> (\<forall>i j s v. i < length (analyse ext unordered self input (Some d))
           \<and> j < length (analyse ext unordered self input (Some d))
           \<and> standardized (analyse ext unordered self input (Some d) ! i) = None
           \<and> standardized (analyse ext unordered self input (Some d) ! j) = Some s
           \<and> call d (py_str ext input) s = Num v \<and> v < top
         \<longrightarrow> j < i)"
proof -
  let ?c = "weighted_lookup_full_analysis ext (analyser self) input (Some (generator self))"
  let ?k = "key d (py_str ext input)"
  let ?f = "\<lambda>c. num_of (?k c)"
  let ?r = "analyse ext unordered self input (Some d)"
  have num: "\<forall>c \<in> set ?c. ?k c \<noteq> NaN"
    using n key_number [of _ d "py_str ext input"] by blast
  have r: "?r = sort_key ?f ?c"
    using t list_sort_numbers [OF num, of unordered] by (simp add: analyse_def)
  have srt: "sorted (map ?f ?r)" by (simp add: r)
  have ms: "mset ?r = mset ?c" by (simp add: r)
  have st: "filter (\<lambda>c. ?k c = Num v) ?r = filter (\<lambda>c. ?k c = Num v) ?c" for v
    using sort_key_stable_numbers [OF num, of v] by (simp add: r)
  have kd: "?k c = (case standardized c of None \<Rightarrow> Num top
      | Some s \<Rightarrow> call d (py_str ext input) s)" for c
    by (simp add: key_def)
  have pos: "j < i" if "i < length ?r" "j < length ?r" "standardized (?r ! i) = None"
    "standardized (?r ! j) = Some s" "call d (py_str ext input) s = Num v" "v < top" for i j s v
  proof -
    have "?f (?r ! i) = top" using that(3) by (simp add: key_def)
    moreover have "?f (?r ! j) < top" using that(4,5,6) by (simp add: key_def)
    ultimately show ?thesis using top_after_below_top [OF srt that(1,2)] by blast
  qed
  have p: "\<forall>i j s v. i < length ?r \<and> j < length ?r \<and> standardized (?r ! i) = None
      \<and> standardized (?r ! j) = Some s \<and> call d (py_str ext input) s = Num v \<and> v < top
      \<longrightarrow> j < i"
    using pos by blast
  show ?thesis
    apply (intro conjI)
         apply (rule r)
        apply (rule srt)
       apply (rule ms)
      apply (rule allI, rule st)
     apply (rule allI, rule kd)
    apply (rule p)
    done
qed

theorem analyse_sorted_by_distance_witness:
  "truth ex_length_distance
   \<and> call ex_length_distance (py_str ex_externals (Str ''ab'')) ''abcd'' = Num 2
   \<and> call ex_length_distance (py_str ex_externals (Str ''ab'')) ''ab'' = Num 0
   \<and> weighted_lookup_full_analysis ex_externals (analyser ex_pair) (Str ''ab'')
       (Some (generator ex_pair)) =
     [\<lparr>weight = 0, tokens = [''A''], standardized = None\<rparr>,
      \<lparr>weight = 1, tokens = [''B''], standardized = Some ''abcd''\<rparr>,
      \<lparr>weight = 2, tokens = [''C''], standardized = None\<rparr>,
      \<lparr>weight = 3, tokens = [''D''], standardized = Some ''ab''\<rparr>]
   \<and> analyse ex_externals ex_unordered ex_pair (Str ''ab'') (Some ex_length_distance) =
     [\<lparr>weight = 3, tokens = [''D''], standardized = Some ''ab''\<rparr>,
      \<lparr>weight = 1, tokens = [''B''], standardized = Some ''abcd''\<rparr>,
      \<lparr>weight = 0, tokens = [''A''], standardized = None\<rparr>,
      \<lparr>weight = 2, tokens = [''C''], standardized = None\<rparr>]"
proof -
  let ?c = "weighted_lookup_full_analysis ex_externals (analyser ex_pair) (Str ''ab'')
    (Some (generator ex_pair))"
  have t: "truth ex_length_distance" by (simp add: ex_length_distance_def)
  have d1: "call ex_length_distance (py_str ex_externals (Str ''ab'')) ''abcd'' = Num 2"
    by (simp add: ex_length_distance_def numeral_eq_enat)
  have d2: "call ex_length_distance (py_str ex_externals (Str ''ab'')) ''ab'' = Num 0"
    by (simp add: ex_length_distance_def zero_enat_def)
  have c: "?c =
     [\<lparr>weight = 0, tokens = [''A''], standardized = None\<rparr>,
      \<lparr>weight = 1, tokens = [''B''], standardized = Some ''abcd''\<rparr>,
      \<lparr>weight = 2, tokens = [''C''], standardized = None\<rparr>,
      \<lparr>weight = 3, tokens = [''D''], standardized = Some ''ab''\<rparr>]"
    by (simp add: weighted_lookup_full_analysis_def weighted_lookup_def ex_defs)
  have n: "\<forall>c \<in> set ?c. \<forall>s. standardized c = Some s \<longrightarrow>
      call ex_length_distance (py_str ex_externals (Str ''ab'')) s \<noteq> NaN"
    by (simp add: ex_length_distance_def)
  have "analyse ex_externals ex_unordered ex_pair (Str ''ab'') (Some ex_length_distance) =
      sort_key (\<lambda>c. num_of (key ex_length_distance (py_str ex_externals (Str ''ab'')) c)) ?c"
    using analyse_sorted_by_distance [OF t n, of ex_unordered] by blast
  then have r: "analyse ex_externals ex_unordered ex_pair (Str ''ab'') (Some ex_length_distance) =
     [\<lparr>weight = 3, tokens = [''D''], standardized = Some ''ab''\<rparr>,
      \<lparr>weight = 1, tokens = [''B''], standardized = Some ''abcd''\<rparr>,
      \<lparr>weight = 0, tokens = [''A''], standardized = None\<rparr>,
      \<lparr>weight = 2, tokens = [''C''], standardized = None\<rparr>]"
    by (simp add: c key_def ex_length_distance_def top_enat_def)
  from t d1 d2 c r show ?thesis by blast
qed

text \<open>
  The claim C3 as written fails where the distance function returns infinity: the
  analysis of \<^verbatim>\<open>A\<close> has no standardized form, that of \<^verbatim>\<open>B\<close> has one, all keys are
  equal, and the candidate without a standardized form stays first.
\<close>

theorem absent_before_standardized:
  "truth ex_infinite_distance
   \<and> call ex_infinite_distance ''ab'' ''abcd'' = Num \<infinity>
   \<and> call ex_infinite_distance ''ab'' ''ab'' = Num \<infinity>
   \<and> analyse ex_externals ex_unordered ex_pair (Str ''ab'') (Some ex_infinite_distance) =
     [\<lparr>weight = 0, tokens = [''A''], standardized = None\<rparr>,
      \<lparr>weight = 1, tokens = [''B''], standardized = Some ''abcd''\<rparr>,
      \<lparr>weight = 2, tokens = [''C''], standardized = None\<rparr>,
      \<lparr>weight = 3, tokens = [''D''], standardized = Some ''ab''\<rparr>]"
  by (simp add: analyse_def list_sort_def key_def weighted_lookup_full_analysis_def
      weighted_lookup_def ex_defs ex_infinite_distance_def top_enat_def)

section \<open>Loading\<close>

text \<open>
  C2, as the code has it. When the single transducer of the file reports infinite
  ambiguity, the constructor raises \<^verbatim>\<open>RuntimeWarning\<close> with its message, after the
  stream is closed: the construction ends with the exception and gives no instance.
\<close>

theorem infinitely_ambiguous_raises:
  "files w filename = Some (TransducerStream [t]) \<Longrightarrow> is_infinitely_ambiguous t \<Longrightarrow>
   TransducerFile_init w filename search_cutoff =
     (Inl (RuntimeWarning ''The transducer is infinitely ambiguous.''),
      w\<lparr>streams := streams w @ [Closed]\<rparr>)"
  by (simp add: TransducerFile_init_def close_def)

theorem infinitely_ambiguous_raises_witness:
  "files ex_world ''ambiguous.hfst'' = Some (TransducerStream [ex_ambiguous_engine])
   \<and> is_infinitely_ambiguous ex_ambiguous_engine
   \<and> TransducerFile_init ex_world ''ambiguous.hfst'' 60 =
       (Inl (RuntimeWarning ''The transducer is infinitely ambiguous.''),
        ex_world\<lparr>streams := streams ex_world @ [Closed]\<rparr>)"
proof -
  have f: "files ex_world ''ambiguous.hfst'' = Some (TransducerStream [ex_ambiguous_engine])"
    by (simp add: ex_world_def)
  have a: "is_infinitely_ambiguous ex_ambiguous_engine"
    by (simp add: ex_ambiguous_engine_def)
  show ?thesis using f a infinitely_ambiguous_raises [OF f a, of 60] by blast
qed

text \<open>
  The claim C2 as written fails: loading a file whose single transducer is infinitely
  ambiguous ends with the exception and no instance.
\<close>

theorem infinitely_ambiguous_no_handle:
  "is_infinitely_ambiguous ex_ambiguous_engine
   \<and> files ex_world ''ambiguous.hfst'' = Some (TransducerStream [ex_ambiguous_engine])
   \<and> fst (TransducerFile_init ex_world ''ambiguous.hfst'' 60) =
       Inl (RuntimeWarning ''The transducer is infinitely ambiguous.'')"
  by (simp add: TransducerFile_init_def close_def ex_world_def ex_ambiguous_engine_def)

lemma load_success:
  assumes ok: "fst (TransducerFile_init w filename c) = Inr self"
  shows "\<exists>t. files w filename = Some (TransducerStream [t]) \<and> \<not> is_infinitely_ambiguous t
           \<and> cutoff self = c
           \<and> transducer self =
               (if get_type t \<in> {HFST_OL_TYPE, HFST_OLW_TYPE} then t else lookup_optimize w t)"
proof (cases "files w filename")
  case None
  then show ?thesis using ok by (simp add: TransducerFile_init_def)
next
  case (Some content)
  show ?thesis
  proof (cases content)
    case NotTransducerStream
    then show ?thesis using ok Some by (simp add: TransducerFile_init_def)
  next
    case (TransducerStream ts)
    note f = Some [unfolded TransducerStream]
    have len: "length ts = 1"
    proof (rule ccontr)
      assume "length ts \<noteq> 1"
      then have "fst (TransducerFile_init w filename c) =
          Inl (ValueError ''We expected a single transducer to arise in the file.'')"
        using f by (simp add: TransducerFile_init_def Let_def)
      then show False using ok by simp
    qed
    then obtain t where ts: "ts = [t]" by (cases ts) auto
    have amb: "\<not> is_infinitely_ambiguous t"
    proof
      assume "is_infinitely_ambiguous t"
      then have "fst (TransducerFile_init w filename c) =
          Inl (RuntimeWarning ''The transducer is infinitely ambiguous.'')"
        using f ts by (simp add: TransducerFile_init_def Let_def)
      then show False using ok by simp
    qed
    have "fst (TransducerFile_init w filename c) =
        Inr \<lparr>cutoff = c, transducer =
          (if get_type t \<in> {HFST_OL_TYPE, HFST_OLW_TYPE} then t else lookup_optimize w t)\<rparr>"
      using f ts amb by (simp add: TransducerFile_init_def Let_def close_def)
    then have "self = \<lparr>cutoff = c, transducer =
          (if get_type t \<in> {HFST_OL_TYPE, HFST_OLW_TYPE} then t else lookup_optimize w t)\<rparr>"
      using ok by simp
    then have "cutoff self = c" and "transducer self =
          (if get_type t \<in> {HFST_OL_TYPE, HFST_OLW_TYPE} then t else lookup_optimize w t)"
      by simp_all
    then show ?thesis using f ts amb by blast
  qed
qed

text \<open>
  C4. The constructor fails with \<^verbatim>\<open>FileNotFoundError\<close> when the path does not exist,
  with the engine's \<^verbatim>\<open>NotTransducerStreamException\<close> and the message
  \<^verbatim>\<open>wrong or corrupt file?\<close> when the stream cannot be read as a transducer container,
  and with \<^verbatim>\<open>ValueError\<close> when the container does not hold exactly one transducer. A
  single transducer that is not infinitely ambiguous gives an instance, and an instance
  holds the given cutoff and the single transducer of the file, as it is when its type
  is a lookup type and as the engine's \<^verbatim>\<open>lookup_optimize()\<close> leaves it otherwise.
\<close>

theorem load_errors:
  "(files w filename = None \<longrightarrow>
      fst (TransducerFile_init w filename c) = Inl (FileNotFoundError (not_found_message filename)))
   \<and> (files w filename = Some NotTransducerStream \<longrightarrow>
      fst (TransducerFile_init w filename c) =
        Inl (NotTransducerStreamException ''wrong or corrupt file?''))
   \<and> (\<forall>ts. files w filename = Some (TransducerStream ts) \<and> length ts \<noteq> 1 \<longrightarrow>
      fst (TransducerFile_init w filename c) =
        Inl (ValueError ''We expected a single transducer to arise in the file.''))
   \<and> (\<forall>t. files w filename = Some (TransducerStream [t]) \<and> \<not> is_infinitely_ambiguous t \<longrightarrow>
      (\<exists>self. fst (TransducerFile_init w filename c) = Inr self))
   \<and> (\<forall>self. fst (TransducerFile_init w filename c) = Inr self \<longrightarrow>
      (\<exists>t. files w filename = Some (TransducerStream [t]) \<and> \<not> is_infinitely_ambiguous t
           \<and> cutoff self = c
           \<and> transducer self =
               (if get_type t \<in> {HFST_OL_TYPE, HFST_OLW_TYPE} then t else lookup_optimize w t)))"
  apply (intro conjI allI impI)
      apply (simp add: TransducerFile_init_def)
     apply (simp add: TransducerFile_init_def)
    apply (simp add: TransducerFile_init_def Let_def)
   apply (simp add: TransducerFile_init_def Let_def)
  apply (erule load_success)
  done

theorem load_errors_witness:
  "(files ex_world ''missing.hfst'' = None
    \<and> fst (TransducerFile_init ex_world ''missing.hfst'' 60) =
        Inl (FileNotFoundError (not_found_message ''missing.hfst'')))
   \<and> (files ex_world ''notes.txt'' = Some NotTransducerStream
    \<and> fst (TransducerFile_init ex_world ''notes.txt'' 60) =
        Inl (NotTransducerStreamException ''wrong or corrupt file?''))
   \<and> (files ex_world ''two.hfst'' = Some (TransducerStream [ex_analyser_engine, ex_generator_engine])
    \<and> length [ex_analyser_engine, ex_generator_engine] \<noteq> 1
    \<and> fst (TransducerFile_init ex_world ''two.hfst'' 60) =
        Inl (ValueError ''We expected a single transducer to arise in the file.''))
   \<and> (files ex_world ''generator.hfst'' = Some (TransducerStream [ex_generator_engine])
    \<and> \<not> is_infinitely_ambiguous ex_generator_engine
    \<and> (\<exists>self. fst (TransducerFile_init ex_world ''generator.hfst'' 60) = Inr self
          \<and> cutoff self = 60
          \<and> transducer self = lookup_optimize ex_world ex_generator_engine))"
proof -
  have h1: "files ex_world ''missing.hfst'' = None" by (simp add: ex_world_def)
  have h2: "files ex_world ''notes.txt'' = Some NotTransducerStream" by (simp add: ex_world_def)
  have h3: "files ex_world ''two.hfst'' =
      Some (TransducerStream [ex_analyser_engine, ex_generator_engine])
    \<and> length [ex_analyser_engine, ex_generator_engine] \<noteq> 1"
    by (simp add: ex_world_def)
  have h4: "files ex_world ''generator.hfst'' = Some (TransducerStream [ex_generator_engine])
    \<and> \<not> is_infinitely_ambiguous ex_generator_engine"
    by (simp add: ex_world_def ex_generator_engine_def ex_engine_def)
  have ty: "get_type ex_generator_engine \<notin> {HFST_OL_TYPE, HFST_OLW_TYPE}"
    by (simp add: ex_generator_engine_def ex_engine_def)
  have c1: "fst (TransducerFile_init ex_world ''missing.hfst'' 60) =
      Inl (FileNotFoundError (not_found_message ''missing.hfst''))"
    using load_errors [of ex_world "''missing.hfst''" 60] h1 by blast
  have c2: "fst (TransducerFile_init ex_world ''notes.txt'' 60) =
      Inl (NotTransducerStreamException ''wrong or corrupt file?'')"
    using load_errors [of ex_world "''notes.txt''" 60] h2 by blast
  have c3: "fst (TransducerFile_init ex_world ''two.hfst'' 60) =
      Inl (ValueError ''We expected a single transducer to arise in the file.'')"
    using load_errors [of ex_world "''two.hfst''" 60] h3 by blast
  obtain self where s: "fst (TransducerFile_init ex_world ''generator.hfst'' 60) = Inr self"
    using load_errors [of ex_world "''generator.hfst''" 60] h4 by blast
  then obtain t where t: "files ex_world ''generator.hfst'' = Some (TransducerStream [t])"
    "cutoff self = 60"
    "transducer self =
       (if get_type t \<in> {HFST_OL_TYPE, HFST_OLW_TYPE} then t else lookup_optimize ex_world t)"
    using load_errors [of ex_world "''generator.hfst''" 60] by blast
  have "t = ex_generator_engine" using t(1) h4 by simp
  then have "transducer self = lookup_optimize ex_world ex_generator_engine"
    using t(3) ty by simp
  then show ?thesis using h1 h2 h3 h4 c1 c2 c3 s t(2) by blast
qed

text \<open>
  C7. The stream opened on the file is closed on each exit after the read: on the
  \<^verbatim>\<open>ValueError\<close> exit and on the exit with an instance the constructor leaves exactly
  one more stream than before, and that stream is closed. On every exit, if no stream
  was open before the call, none is open after it.
\<close>

theorem stream_closed_on_exit:
  "(\<forall>note. fst (TransducerFile_init w filename c) = Inl (ValueError note) \<longrightarrow>
      streams (snd (TransducerFile_init w filename c)) = streams w @ [Closed])
   \<and> (\<forall>self. fst (TransducerFile_init w filename c) = Inr self \<longrightarrow>
      streams (snd (TransducerFile_init w filename c)) = streams w @ [Closed])
   \<and> ((\<forall>s \<in> set (streams w). s = Closed) \<longrightarrow>
      (\<forall>s \<in> set (streams (snd (TransducerFile_init w filename c))). s = Closed))"
  by (auto simp: TransducerFile_init_def Let_def close_def
      split: option.splits file_content.splits if_splits)

theorem stream_closed_on_exit_witness:
  "(fst (TransducerFile_init ex_world ''two.hfst'' 60) =
      Inl (ValueError ''We expected a single transducer to arise in the file.'')
    \<and> streams (snd (TransducerFile_init ex_world ''two.hfst'' 60)) = [Closed])
   \<and> ((\<exists>self. fst (TransducerFile_init ex_world ''analyser.hfstol'' 60) = Inr self)
    \<and> streams (snd (TransducerFile_init ex_world ''analyser.hfstol'' 60)) = [Closed])
   \<and> streams ex_world = []
   \<and> Open \<notin> set (streams (snd (TransducerFile_init ex_world ''ambiguous.hfst'' 60)))"
proof -
  have e: "streams ex_world = []" by (simp add: ex_world_def)
  have h1: "fst (TransducerFile_init ex_world ''two.hfst'' 60) =
      Inl (ValueError ''We expected a single transducer to arise in the file.'')"
    by (simp add: TransducerFile_init_def Let_def ex_world_def)
  have h2: "\<exists>self. fst (TransducerFile_init ex_world ''analyser.hfstol'' 60) = Inr self"
    by (simp add: TransducerFile_init_def Let_def ex_world_def ex_analyser_engine_def
        ex_engine_def)
  have c1: "streams (snd (TransducerFile_init ex_world ''two.hfst'' 60)) = streams ex_world @ [Closed]"
    using stream_closed_on_exit [of ex_world "''two.hfst''" 60] h1 by blast
  have c2: "streams (snd (TransducerFile_init ex_world ''analyser.hfstol'' 60)) =
      streams ex_world @ [Closed]"
    using stream_closed_on_exit [of ex_world "''analyser.hfstol''" 60] h2 by blast
  have h3: "\<forall>s \<in> set (streams ex_world). s = Closed" by (simp add: e)
  have "\<forall>s \<in> set (streams (snd (TransducerFile_init ex_world ''ambiguous.hfst'' 60))). s = Closed"
    using stream_closed_on_exit [of ex_world "''ambiguous.hfst''" 60] h3 by blast
  then have c3: "Open \<notin> set (streams (snd (TransducerFile_init ex_world ''ambiguous.hfst'' 60)))"
    by blast
  show ?thesis using h1 h2 c1 c2 c3 e by simp
qed

text \<open>
  C10. A pair that the constructor builds holds the one cutoff it was given in both
  its analyser and its generator.
\<close>

theorem pair_shares_cutoff:
  "fst (TransducerPair_init w analyser_path generator_path c) = Inr pair \<Longrightarrow>
   cutoff (analyser pair) = c \<and> cutoff (generator pair) = c"
  by (auto simp: TransducerPair_init_def TransducerFile_init_def Let_def
      split: prod.splits sum.splits option.splits file_content.splits if_splits)

theorem pair_shares_cutoff_witness:
  "\<exists>pair. fst (TransducerPair_init ex_world ''analyser.hfstol'' ''generator.hfst'' 45) = Inr pair
     \<and> cutoff (analyser pair) = 45 \<and> cutoff (generator pair) = 45"
proof -
  obtain pair where
    p: "fst (TransducerPair_init ex_world ''analyser.hfstol'' ''generator.hfst'' 45) = Inr pair"
    by (simp add: TransducerPair_init_def TransducerFile_init_def Let_def close_def ex_world_def
        ex_analyser_engine_def ex_generator_engine_def ex_engine_def)
  from pair_shares_cutoff [OF p] p show ?thesis by blast
qed

end
